theory Spec2Isabelle
  imports Main
begin

section \<open>Python values used by the translation scripts\<close>

text \<open>
  Characters that cannot be written inside a HOL string literal are named here: the
  single quote, the double quote and the backslash.
\<close>

definition squote :: char where
  "squote = CHR 0x27"

definition dquote :: char where
  "dquote = CHR 0x22"

definition backslash :: char where
  "backslash = CHR 0x5C"

text \<open>Python's \<^verbatim>\<open>sep.join(xs)\<close>.\<close>

fun join :: "string \<Rightarrow> string list \<Rightarrow> string" where
  "join sep [] = []"
| "join sep [x] = x"
| "join sep (x # y # ys) = x @ sep @ join sep (y # ys)"

text \<open>Python's \<^verbatim>\<open>s.replace(a, b)\<close> for one-character \<open>a\<close> and \<open>b\<close>.\<close>

definition replace :: "char \<Rightarrow> char \<Rightarrow> string \<Rightarrow> string" where
  "replace a b s = map (\<lambda>c. if c = a then b else c) s"

text \<open>Python's \<^verbatim>\<open>str(n)\<close> for an integer: decimal digits, a minus sign when negative.\<close>

definition digit_char :: "nat \<Rightarrow> char" where
  "digit_char d = ''0123456789'' ! d"

function str_nat :: "nat \<Rightarrow> string" where
  "str_nat n = (if n < 10 then [digit_char n] else str_nat (n div 10) @ [digit_char (n mod 10)])"
  by pat_completeness auto
termination
  by (relation "measure (\<lambda>n. n)") auto

declare str_nat.simps [simp del]

definition str_int :: "int \<Rightarrow> string" where
  "str_int i = (if i < 0 then CHR ''-'' # str_nat (nat (- i)) else str_nat (nat i))"

text \<open>
  A scalar of the rule tree: Python \<^verbatim>\<open>str\<close> or \<^verbatim>\<open>int\<close>
  (\<^verbatim>\<open>type(node) in (str, int)\<close>).
\<close>

datatype scalar = PyStr string | PyInt int

fun str :: "scalar \<Rightarrow> string" where
  "str (PyStr s) = s"
| "str (PyInt i) = str_int i"

section \<open>Errors\<close>

text \<open>
  Every \<^verbatim>\<open>raise\<close> of the two modules, named as the specification names it where it
  has a name for it:
  \<^item> \<open>UnsupportedNodeKind\<close>: the \<^verbatim>\<open>TypeError\<close> of \<^verbatim>\<open>generateNode\<close>;
  \<^item> \<open>UnsupportedMapValueType\<close>: the \<^verbatim>\<open>TypeError\<close> of \<^verbatim>\<open>generateMapItemNode\<close>;
  \<^item> \<open>UnsupportedAggregation\<close>: the \<^verbatim>\<open>NotImplementedError\<close> of \<^verbatim>\<open>generateAggregation\<close>;
  \<^item> \<open>MergeConflict\<close>: the \<^verbatim>\<open>ValueError\<close> "must have disjunct categories, products and services";
  \<^item> \<open>InvalidDefaultIndexType\<close>: the \<^verbatim>\<open>TypeError\<close> "Default index must be string or list of strings";
  \<^item> \<open>InvalidMergeMethod\<close>: the \<^verbatim>\<open>ValueError\<close> "Mergemethod must be 'and' or 'or'";
  \<^item> \<open>SigmaConfigParseError\<close> with its message;
  \<^item> \<open>NotSubscriptable\<close>: the \<^verbatim>\<open>TypeError\<close> Python raises for \<^verbatim>\<open>config['fieldmappings']\<close>
    when the parsed document is not a map;
  \<^item> \<open>NoItemsAttribute\<close>: the \<^verbatim>\<open>AttributeError\<close> Python raises for \<^verbatim>\<open>.items()\<close> on a
    value that is not a map;
  \<^item> \<open>UnpackError\<close>: the \<^verbatim>\<open>ValueError\<close> Python raises when the empty string is unpacked
    into two variables.
\<close>

datatype error =
    UnsupportedNodeKind
  | UnsupportedMapValueType
  | UnsupportedAggregation
  | MergeConflict
  | InvalidDefaultIndexType
  | InvalidMergeMethod
  | SigmaConfigParseError string
  | NotSubscriptable
  | NoItemsAttribute
  | UnpackError

section \<open>The configuration module\<close>

subsection \<open>Parsed YAML\<close>

text \<open>
  What \<^verbatim>\<open>yaml.safe_load\<close> returns: \<^verbatim>\<open>None\<close>, a bool, an int, a str, a list, a dict
  (in insertion order, its keys distinct) or a scalar of another type (a float, a
  date), kept as its text. The code only asks such a value for its type.
\<close>

datatype yaml =
    YNone
  | YBool bool
  | YInt int
  | YStr string
  | YList "yaml list"
  | YMap "(yaml \<times> yaml) list"
  | YOther string

fun ystr :: "yaml \<Rightarrow> string option" where
  "ystr (YStr s) = Some s"
| "ystr _ = None"

text \<open>The strings of a list whose elements are all of type \<^verbatim>\<open>str\<close>; \<open>None\<close> otherwise.\<close>

fun all_str :: "yaml list \<Rightarrow> string list option" where
  "all_str [] = Some []"
| "all_str (y # ys) =
     (case ystr y of
        None \<Rightarrow> None
      | Some s \<Rightarrow> (case all_str ys of None \<Rightarrow> None | Some ss \<Rightarrow> Some (s # ss)))"

subsection \<open>Conditions of a log source\<close>

text \<open>
  The classes \<^verbatim>\<open>ConditionAND\<close> and \<^verbatim>\<open>ConditionOR\<close> come from sigma.parser.condition,
  which is not among the sources; the configuration only creates them, adds items
  (\<^verbatim>\<open>cond.add\<close>) and asks for their length. An item is a \<^verbatim>\<open>(key, value)\<close> tuple of the
  configuration document or another condition.
\<close>

datatype cond =
    CondAND "cond list"
  | CondOR "cond list"
  | CondTuple yaml yaml

subsection \<open>SigmaLogsourceConfiguration\<close>

record SigmaLogsourceConfiguration =
  name :: "yaml option"
  indexfield :: "string option"
  category :: "string option"
  product :: "string option"
  service :: "string option"
  index :: "string list"
  conditions :: "cond option"

definition MM_AND :: yaml where
  "MM_AND = YStr ''and''"

definition MM_OR :: yaml where
  "MM_OR = YStr ''or''"

text \<open>\<^verbatim>\<open>logsource is None\<close>: the empty object.\<close>

definition empty_logsource :: "yaml option \<Rightarrow> string option \<Rightarrow> SigmaLogsourceConfiguration" where
  "empty_logsource nm ixf =
     \<lparr>name = nm, indexfield = ixf, category = None, product = None, service = None,
      index = [], conditions = None\<rparr>"

text \<open>
  \<^verbatim>\<open>try: self.category = categories.pop() except KeyError: self.category = None\<close>, on a
  set held as a list without duplicates. The pop is only reached with at most one
  element in the set, where Python's choice of the element is determined.
\<close>

definition pop_or_None :: "'a list \<Rightarrow> 'a option" where
  "pop_or_None xs = (case xs of [] \<Rightarrow> None | x # _ \<Rightarrow> Some x)"

text \<open>
  The constructor on a list of SigmaLogsourceConfigurations: the merge. A Python set is
  held as a list without duplicates (\<open>remdups\<close>); the order in which
  \<^verbatim>\<open>list({...})\<close> enumerates the merged index patterns is not determined by Python, and
  nothing below depends on it.
\<close>

definition merge_logsources ::
  "SigmaLogsourceConfiguration list \<Rightarrow> yaml \<Rightarrow> yaml option \<Rightarrow> yaml \<Rightarrow> string option
     \<Rightarrow> error + SigmaLogsourceConfiguration" where
  "merge_logsources logsource defaultindex nm mergemethod ixf =
     (let categories = remdups (List.map_filter category logsource);
          products = remdups (List.map_filter product logsource);
          services = remdups (List.map_filter service logsource)
      in if length categories > 1 \<or> length products > 1 \<or> length services > 1
         then Inl MergeConflict
         else
           let merged = remdups (concat (map index logsource));
               ix = (if merged = [] \<and> defaultindex \<noteq> YNone
                     then (case defaultindex of
                             YStr s \<Rightarrow> Inr [s]
                           | YList ys \<Rightarrow> (case all_str ys of
                                            Some ss \<Rightarrow> Inr ss
                                          | None \<Rightarrow> Inl InvalidDefaultIndexType)
                           | _ \<Rightarrow> Inl InvalidDefaultIndexType)
                     else Inr merged)
           in case ix of
                Inl e \<Rightarrow> Inl e
              | Inr ix' \<Rightarrow>
                  let indexfields = List.map_filter indexfield logsource;
                      items = List.map_filter conditions logsource
                  in if mergemethod = MM_AND
                     then Inr \<lparr>name = nm, indexfield = pop_or_None indexfields,
                               category = pop_or_None categories, product = pop_or_None products,
                               service = pop_or_None services, index = ix',
                               conditions = (if length items > 0 then Some (CondAND items) else None)\<rparr>
                     else if mergemethod = MM_OR
                     then Inr \<lparr>name = nm, indexfield = pop_or_None indexfields,
                               category = pop_or_None categories, product = pop_or_None products,
                               service = pop_or_None services, index = ix',
                               conditions = (if length items > 0 then Some (CondOR items) else None)\<rparr>
                     else Inl InvalidMergeMethod)"

text \<open>
  The constructor on a parsed YAML map (\<^verbatim>\<open>type(logsource) == dict\<close>).
  \<open>lookup m k\<close> is \<^verbatim>\<open>m[k]\<close>, \<open>None\<close> when \<^verbatim>\<open>k not in m\<close>.
\<close>

definition lookup :: "(yaml \<times> yaml) list \<Rightarrow> string \<Rightarrow> yaml option" where
  "lookup m k = map_of m (YStr k)"

definition not_str :: "yaml option \<Rightarrow> bool" where
  "not_str v = (case v of None \<Rightarrow> False | Some y \<Rightarrow> ystr y = None)"

definition str_or_None :: "yaml option \<Rightarrow> string option" where
  "str_or_None v = (case v of None \<Rightarrow> None | Some y \<Rightarrow> ystr y)"

definition logsource_of_dict ::
  "(yaml \<times> yaml) list \<Rightarrow> yaml option \<Rightarrow> string option \<Rightarrow> error + SigmaLogsourceConfiguration" where
  "logsource_of_dict logsource nm ixf =
     (if not_str (lookup logsource ''category'') \<or> not_str (lookup logsource ''product'')
           \<or> not_str (lookup logsource ''service'')
      then Inl (SigmaConfigParseError ''Logsource category, product or service must be a string'')
      else
        let cat = str_or_None (lookup logsource ''category'');
            prod = str_or_None (lookup logsource ''product'');
            serv = str_or_None (lookup logsource ''service'')
        in if cat = None \<and> prod = None \<and> serv = None
           then Inl (SigmaConfigParseError ''Log source definition will not match'')
           else
             case (case lookup logsource ''index'' of
                     None \<Rightarrow> Inr []
                   | Some (YStr s) \<Rightarrow> Inr [s]
                   | Some (YList ys) \<Rightarrow>
                       (case all_str ys of
                          None \<Rightarrow> Inl (SigmaConfigParseError ''Logsource index patterns must be strings'')
                        | Some ss \<Rightarrow> Inr ss)
                   | Some _ \<Rightarrow> Inl (SigmaConfigParseError ''Logsource index must be string or list of strings''))
             of Inl e \<Rightarrow> Inl e
              | Inr ix \<Rightarrow>
                  (case lookup logsource ''conditions'' of
                     None \<Rightarrow>
                       Inr \<lparr>name = nm, indexfield = ixf, category = cat, product = prod,
                            service = serv, index = ix, conditions = None\<rparr>
                   | Some (YMap c) \<Rightarrow>
                       Inr \<lparr>name = nm, indexfield = ixf, category = cat, product = prod,
                            service = serv, index = ix,
                            conditions = Some (CondAND (map (\<lambda>(k, v). CondTuple k v) c))\<rparr>
                   | Some _ \<Rightarrow> Inl (SigmaConfigParseError ''Logsource conditions must be a map'')))"

text \<open>
  The constructor as \<^verbatim>\<open>set_backend\<close> calls it, on a value of the configuration
  document. \<^verbatim>\<open>None\<close> gives the empty object; an empty YAML list passes the test
  \<^verbatim>\<open>type(logsource) == list and all(...)\<close> and is merged as an empty list of log
  sources; a map is read; anything else is refused.
\<close>

definition logsource_of_yaml ::
  "yaml \<Rightarrow> yaml \<Rightarrow> yaml option \<Rightarrow> yaml \<Rightarrow> string option \<Rightarrow> error + SigmaLogsourceConfiguration" where
  "logsource_of_yaml logsource defaultindex nm mergemethod ixf =
     (case logsource of
        YNone \<Rightarrow> Inr (empty_logsource nm ixf)
      | YList [] \<Rightarrow> merge_logsources [] defaultindex nm mergemethod ixf
      | YMap m \<Rightarrow> logsource_of_dict m nm ixf
      | _ \<Rightarrow> Inl (SigmaConfigParseError ''Logsource definitions must be maps''))"

text \<open>
  \<^verbatim>\<open>matches\<close>: the loop over the three (searched value, own value) pairs, with its
  counter. The result is \<^verbatim>\<open>True\<close>, \<^verbatim>\<open>False\<close> or, when the loop ends with the counter
  at zero, \<^verbatim>\<open>None\<close>.
\<close>

fun matches_loop :: "nat \<Rightarrow> (string option \<times> string option) list \<Rightarrow> bool option" where
  "matches_loop searched [] = (if searched \<noteq> 0 then Some True else None)"
| "matches_loop searched ((searchval, selfval) # rest) =
     (if searchval = None \<and> selfval \<noteq> None then Some False
      else if selfval \<noteq> None
           then (if searchval \<noteq> selfval then Some False else matches_loop (searched + 1) rest)
           else matches_loop searched rest)"

definition matches ::
  "SigmaLogsourceConfiguration \<Rightarrow> string option \<Rightarrow> string option \<Rightarrow> string option \<Rightarrow> bool option" where
  "matches self c p s = matches_loop 0 (zip [c, p, s] [category self, product self, service self])"

text \<open>Python's truth value of what \<^verbatim>\<open>matches\<close> returns.\<close>

definition truthy :: "bool option \<Rightarrow> bool" where
  "truthy r = (r = Some True)"

subsection \<open>SigmaConfiguration\<close>

text \<open>
  The backend as the configuration sees it: its \<^verbatim>\<open>index_field\<close>.
  \<^verbatim>\<open>FieldMapping(source, target)\<close> (sigma.config.mapping, not among the sources) is
  kept as the pair of its arguments. \<^verbatim>\<open>logsources\<close> starts as an empty dict when no
  document is given and as an empty list otherwise; the code only iterates it and
  appends to the list, so both are the empty list here.
\<close>

record Backend =
  index_field :: "string option"

record SigmaConfiguration =
  config :: "(yaml \<times> yaml) list option"
  fieldmappings :: "(yaml \<times> yaml) list"
  logsources :: "SigmaLogsourceConfiguration list"
  logsourcemerging :: yaml
  defaultindex :: yaml
  backend :: "Backend option"

text \<open>
  \<^verbatim>\<open>__init__\<close>, on what \<^verbatim>\<open>yaml.safe_load\<close> returned (\<open>None\<close>: no document given).
\<close>

definition SigmaConfiguration_init :: "yaml option \<Rightarrow> error + SigmaConfiguration" where
  "SigmaConfiguration_init configyaml =
     (case configyaml of
        None \<Rightarrow>
          Inr \<lparr>config = None, fieldmappings = [], logsources = [], logsourcemerging = MM_AND,
               defaultindex = YNone, backend = None\<rparr>
      | Some (YMap m) \<Rightarrow>
          (case (case lookup m ''fieldmappings'' of
                   None \<Rightarrow> Inr []
                 | Some (YMap fm) \<Rightarrow> Inr fm
                 | Some _ \<Rightarrow> Inl NoItemsAttribute)
           of Inl e \<Rightarrow> Inl e
            | Inr fm \<Rightarrow>
                Inr \<lparr>config = Some m, fieldmappings = fm, logsources = [],
                     logsourcemerging = (case lookup m ''logsourcemerging'' of None \<Rightarrow> MM_AND | Some v \<Rightarrow> v),
                     defaultindex = (case lookup m ''defaultindex'' of None \<Rightarrow> YNone | Some v \<Rightarrow> v),
                     backend = None\<rparr>)
      | Some _ \<Rightarrow> Inl NotSubscriptable)"

definition get_indexfield :: "SigmaConfiguration \<Rightarrow> string option" where
  "get_indexfield self = (case backend self of None \<Rightarrow> None | Some b \<Rightarrow> index_field b)"

definition get_logsource ::
  "SigmaConfiguration \<Rightarrow> string option \<Rightarrow> string option \<Rightarrow> string option
     \<Rightarrow> error + SigmaLogsourceConfiguration" where
  "get_logsource self c p s =
     (let matching = filter (\<lambda>logsource. truthy (matches logsource c p s)) (logsources self)
      in merge_logsources matching (defaultindex self) None MM_AND None)"

text \<open>
  \<^verbatim>\<open>set_backend\<close>. The method changes the object as it goes; the result is the object
  as the call leaves it, with the exception when one was raised.
\<close>

fun set_backend_loop ::
  "SigmaConfiguration \<Rightarrow> (yaml \<times> yaml) list \<Rightarrow> SigmaConfiguration \<times> error option" where
  "set_backend_loop self [] = (self, None)"
| "set_backend_loop self ((nm, logsource) # rest) =
     (case logsource_of_yaml logsource (defaultindex self) (Some nm) (logsourcemerging self)
             (get_indexfield self) of
        Inl e \<Rightarrow> (self, Some e)
      | Inr ls \<Rightarrow> set_backend_loop (self\<lparr>logsources := logsources self @ [ls]\<rparr>) rest)"

definition set_backend :: "SigmaConfiguration \<Rightarrow> Backend \<Rightarrow> SigmaConfiguration \<times> error option" where
  "set_backend self b =
     (let self1 = self\<lparr>backend := Some b\<rparr>
      in case config self1 of
           None \<Rightarrow> (self1, None)
         | Some m \<Rightarrow>
             (case lookup m ''logsources'' of
                None \<Rightarrow> (self1, None)
              | Some (YMap ls) \<Rightarrow> set_backend_loop self1 ls
              | Some _ \<Rightarrow> (self1, Some (SigmaConfigParseError ''Logsources must be a map''))))"

section \<open>The QRadar backend: constants of the class\<close>

definition andToken :: string where
  "andToken = '' and ''"

definition orToken :: string where
  "orToken = '' or ''"

definition notToken :: string where
  "notToken = ''not ''"

definition subExpression :: "string \<Rightarrow> string" where
  "subExpression s = ''('' @ s @ '')''"

definition listExpression :: "string \<Rightarrow> string" where
  "listExpression s = s"

definition listSeparator :: string where
  "listSeparator = '' ''"

definition valueExpression :: "string \<Rightarrow> string" where
  "valueExpression s = [squote] @ s @ [squote]"

definition nullExpression :: "string \<Rightarrow> string" where
  "nullExpression s = s @ '' is null''"

definition notNullExpression :: "string \<Rightarrow> string" where
  "notNullExpression s = ''not ('' @ s @ '' is null)''"

definition mapExpression :: "string \<Rightarrow> string \<Rightarrow> string" where
  "mapExpression k v = k @ ''='' @ v"

definition mapListsSpecialHandling :: bool where
  "mapListsSpecialHandling = True"

definition aql_database :: string where
  "aql_database = ''events''"

text \<open>
  \<^verbatim>\<open>reEscape = re.compile('(")')\<close>: the characters the pattern matches.
  \<^verbatim>\<open>reClear = None\<close>: nothing is removed.
\<close>

definition reEscape :: "char \<Rightarrow> bool" where
  "reEscape c = (c = dquote)"

section \<open>Keys and values\<close>

definition cleanKey :: "string \<Rightarrow> string" where
  "cleanKey key = (if CHR '' '' \<in> set key then [dquote] @ key @ [dquote] else key)"

text \<open>
  Modelled from the spec: \<^verbatim>\<open>cleanValue\<close>, a method of the base class
  \<^verbatim>\<open>SingleTextQueryBackend\<close> (backends/base.py is not among the sources). The spec:
  "every scalar is escaped for embedded quote characters before insertion into the
  target value-literal syntax". The characters escaped are the ones \<open>reEscape\<close> of
  qradar.py matches, each preceded by a backslash; \<open>reClear\<close> is \<^verbatim>\<open>None\<close> there,
  so no character is removed.
\<close>

definition cleanValue :: "string \<Rightarrow> string" where
  "cleanValue val = concat (map (\<lambda>c. if reEscape c then [backslash, c] else [c]) val)"

definition generateValueNode :: "scalar \<Rightarrow> bool \<Rightarrow> string" where
  "generateValueNode node keypresent =
     (if keypresent = False
      then ''UTF8(payload) ilike '' @ [squote] @ ''%'' @ cleanValue (str node) @ ''%'' @ [squote]
      else valueExpression (cleanValue (str node)))"

text \<open>
  \<^verbatim>\<open>generateMapItemListNode\<close>: the loop appends one clause per item to
  \<^verbatim>\<open>itemslist\<close>; \<open>itemslist_step\<close> is one pass of the loop body.
\<close>

definition is_wildcard :: "scalar \<Rightarrow> bool" where
  "is_wildcard item = (case item of PyStr s \<Rightarrow> CHR ''*'' \<in> set s | PyInt _ \<Rightarrow> False)"

definition itemslist_step :: "string \<Rightarrow> string list \<Rightarrow> scalar \<Rightarrow> string list" where
  "itemslist_step key itemslist item =
     (case item of
        PyStr s \<Rightarrow>
          if CHR ''*'' \<in> set s
          then itemslist @ [cleanKey key @ '' ilike '' @ generateValueNode (PyStr (replace CHR ''*'' CHR ''%'' s)) True]
          else itemslist @ [cleanKey key @ '' = '' @ generateValueNode item True]
      | PyInt _ \<Rightarrow> itemslist @ [cleanKey key @ '' = '' @ generateValueNode item True])"

definition generateMapItemListNode :: "string \<Rightarrow> scalar list \<Rightarrow> string" where
  "generateMapItemListNode key val =
     ''('' @ join '' or '' (foldl (itemslist_step key) [] val) @ '')''"

section \<open>The condition tree and its rendering\<close>

text \<open>
  The parse tree comes from sigma.parser.condition, which is not among the sources;
  its node kinds are the ones \<^verbatim>\<open>generateNode\<close> tells apart by type, with the values
  the specification's data model gives them. The value of a \<^verbatim>\<open>(key, value)\<close> tuple is
  a scalar, a list of scalars, or of another type (\<open>VOther\<close>: a nested condition
  node, \<^verbatim>\<open>None\<close>, a map).
\<close>

datatype mapvalue = VScalar scalar | VList "scalar list" | VOther

datatype node =
    ConditionAND "node list"
  | ConditionOR "node list"
  | ConditionNOT node
  | ConditionNULLValue string
  | ConditionNotNULLValue string
  | NodeSubexpression node
  | Tuple string mapvalue
  | Scalar scalar
  | ListNode "scalar list"
  | OtherNode

definition generateNULLValueNode :: "string \<Rightarrow> string" where
  "generateNULLValueNode item = nullExpression item"

definition generateNotNULLValueNode :: "string \<Rightarrow> string" where
  "generateNotNULLValueNode item = notNullExpression item"

text \<open>
  Modelled from the spec: \<^verbatim>\<open>generateListNode\<close> of the base class (backends/base.py
  is not among the sources). The spec: a bare list value outside a map item is
  rendered as full-text search expressions; the items are rendered one by one
  (\<^verbatim>\<open>generateNode\<close> on a scalar) and joined with \<open>listSeparator\<close> inside
  \<open>listExpression\<close>, the two constants qradar.py sets.
\<close>

definition generateListNode :: "scalar list \<Rightarrow> string" where
  "generateListNode xs = listExpression (join listSeparator (map (\<lambda>v. generateValueNode v False) xs))"

text \<open>
  \<^verbatim>\<open>generateMapItemNode\<close>. Where the source calls \<^verbatim>\<open>self.generateNode(value)\<close> the
  value is a list (the only non-scalar the first test lets through), for which
  \<^verbatim>\<open>generateNode\<close> calls \<^verbatim>\<open>generateListNode\<close>.
\<close>

definition is_scalar :: "mapvalue \<Rightarrow> bool" where
  "is_scalar v = (case v of VScalar _ \<Rightarrow> True | _ \<Rightarrow> False)"

definition is_list :: "mapvalue \<Rightarrow> bool" where
  "is_list v = (case v of VList _ \<Rightarrow> True | _ \<Rightarrow> False)"

definition generateMapItemNode :: "string \<Rightarrow> mapvalue \<Rightarrow> error + string" where
  "generateMapItemNode key val =
     (if (mapListsSpecialHandling = False \<and> (is_scalar val \<or> is_list val))
          \<or> (mapListsSpecialHandling = True \<and> is_scalar val)
      then (case val of
              VScalar (PyStr s) \<Rightarrow>
                if CHR ''*'' \<in> set s
                then Inr (cleanKey key @ '' ilike ''
                          @ generateValueNode (PyStr (replace CHR ''*'' CHR ''%'' s)) True)
                else Inr (mapExpression (cleanKey key) (generateValueNode (PyStr s) True))
            | VScalar (PyInt i) \<Rightarrow>
                Inr (mapExpression (cleanKey key) (generateValueNode (PyInt i) True))
            | VList xs \<Rightarrow> Inr (mapExpression (cleanKey key) (generateListNode xs))
            | VOther \<Rightarrow> Inl UnsupportedMapValueType)
      else (case val of
              VList xs \<Rightarrow> Inr (generateMapItemListNode key xs)
            | _ \<Rightarrow> Inl UnsupportedMapValueType))"

text \<open>The results of a list of calls, in order; the first exception ends them.\<close>

fun sequence :: "(error + 'a) list \<Rightarrow> error + 'a list" where
  "sequence [] = Inr []"
| "sequence (r # rs) =
     (case r of
        Inl e \<Rightarrow> Inl e
      | Inr v \<Rightarrow> (case sequence rs of Inl e \<Rightarrow> Inl e | Inr vs \<Rightarrow> Inr (v # vs)))"

text \<open>
  \<^verbatim>\<open>generateNode\<close>: the dispatch of qradar.py. Modelled from the spec: the methods
  \<^verbatim>\<open>generateANDNode\<close>, \<^verbatim>\<open>generateORNode\<close>, \<^verbatim>\<open>generateNOTNode\<close> and
  \<^verbatim>\<open>generateSubexpressionNode\<close> of the base class (backends/base.py is not among the
  sources): the children rendered and joined with the AND or OR token, the NOT token
  put before the rendered child, the rendered child in parentheses.
\<close>

fun generateNode :: "node \<Rightarrow> error + string" where
  "generateNode (ConditionAND ns) =
     (case sequence (map generateNode ns) of Inl e \<Rightarrow> Inl e | Inr gs \<Rightarrow> Inr (join andToken gs))"
| "generateNode (ConditionOR ns) =
     (case sequence (map generateNode ns) of Inl e \<Rightarrow> Inl e | Inr gs \<Rightarrow> Inr (join orToken gs))"
| "generateNode (ConditionNOT n) =
     (case generateNode n of Inl e \<Rightarrow> Inl e | Inr g \<Rightarrow> Inr (notToken @ g))"
| "generateNode (ConditionNULLValue item) = Inr (generateNULLValueNode item)"
| "generateNode (ConditionNotNULLValue item) = Inr (generateNotNULLValueNode item)"
| "generateNode (NodeSubexpression n) =
     (case generateNode n of Inl e \<Rightarrow> Inl e | Inr g \<Rightarrow> Inr (subExpression g))"
| "generateNode (Tuple key val) = generateMapItemNode key val"
| "generateNode (Scalar v) = Inr (generateValueNode v False)"
| "generateNode (ListNode xs) = Inr (generateListNode xs)"
| "generateNode OtherNode = Inl UnsupportedNodeKind"

section \<open>Aggregation and query assembly\<close>

text \<open>
  The aggregation object comes from the rule parser (not among the sources); its
  fields are the ones \<^verbatim>\<open>generateAggregation\<close> reads, typed as the specification's
  AggregationSpec: \<open>aggfunc\<close> is one of the parser's \<^verbatim>\<open>AGGFUNC_*\<close> constants,
  \<open>aggfunc_notrans\<close> the name of the function as the rule wrote it.
\<close>

datatype aggfunc = AGGFUNC_COUNT | AGGFUNC_MIN | AGGFUNC_MAX | AGGFUNC_AVG | AGGFUNC_SUM | AGGFUNC_NEAR

record agg =
  aggfunc :: aggfunc
  aggfunc_notrans :: string
  aggfield :: string
  groupfield :: "string option"
  cond_op :: string
  condition :: int

text \<open>
  The attributes the backend object gains while it translates. An exception ends the
  translation of the rule; the result is then the exception alone.
\<close>

record QRadarBackend =
  qradarPrefixAgg :: "string option"
  qradarSuffixAgg :: "string option"
  parsedlogsource :: "string list option"

text \<open>What \<^verbatim>\<open>generateAggregation\<close> returns: the empty string or a pair.\<close>

datatype aggresult = EmptyString | PrefixSuffix string string

definition generateAggregation :: "QRadarBackend \<Rightarrow> agg option \<Rightarrow> error + (aggresult \<times> QRadarBackend)" where
  "generateAggregation self a =
     (case a of
        None \<Rightarrow> Inr (EmptyString, self)
      | Some ag \<Rightarrow>
          if aggfunc ag = AGGFUNC_NEAR then Inl UnsupportedAggregation
          else
            (case groupfield ag of
               None \<Rightarrow>
                 let pre = ''SELECT '' @ aggfunc_notrans ag @ ''('' @ aggfield ag @ '') as agg_val from ''
                           @ aql_database @ '' where'';
                     suf = '' group by '' @ aggfield ag @ '' having agg_val '' @ cond_op ag @ '' ''
                           @ str_int (condition ag)
                 in Inr (PrefixSuffix pre suf, self\<lparr>qradarPrefixAgg := Some pre, qradarSuffixAgg := Some suf\<rparr>)
             | Some g \<Rightarrow>
                 let pre = '' SELECT '' @ aggfunc_notrans ag @ ''('' @ aggfield ag @ '') as agg_val from ''
                           @ aql_database @ '' where '';
                     suf = '' group by '' @ g @ '' having agg_val '' @ cond_op ag @ '' ''
                           @ str_int (condition ag)
                 in Inr (PrefixSuffix pre suf, self\<lparr>qradarPrefixAgg := Some pre, qradarSuffixAgg := Some suf\<rparr>)))"

text \<open>
  One parsed condition of a rule, and the rule parser as the backend uses it: its
  parsed conditions and what its \<^verbatim>\<open>get_logsource()\<close> returns or raises (the parser
  is not among the sources; it resolves the rule's log source with the
  configuration's \<open>get_logsource\<close>).
\<close>

record parsed =
  parsedSearch :: node
  parsedAgg :: "agg option"

record sigmaparser =
  condparsed :: "parsed list"
  parser_logsource :: "error + SigmaLogsourceConfiguration"

text \<open>Python's \<^verbatim>\<open>sub in s\<close> on strings.\<close>

fun startswith :: "string \<Rightarrow> string \<Rightarrow> bool" where
  "startswith s [] = True"
| "startswith [] (c # cs) = False"
| "startswith (x # xs) (c # cs) = (x = c \<and> startswith xs cs)"

fun contains :: "string \<Rightarrow> string \<Rightarrow> bool" where
  "contains [] sub = (sub = [])"
| "contains (x # xs) sub = (startswith (x # xs) sub \<or> contains xs sub)"

definition generateQuery :: "QRadarBackend \<Rightarrow> parsed \<Rightarrow> sigmaparser \<Rightarrow> error + (string \<times> QRadarBackend)" where
  "generateQuery self p sp =
     (case generateNode (parsedSearch p) of
        Inl e \<Rightarrow> Inl e
      | Inr result \<Rightarrow>
          (case parser_logsource sp of
             Inl e \<Rightarrow> Inl e
           | Inr ls \<Rightarrow>
               let self1 = self\<lparr>parsedlogsource := Some (index ls)\<rparr>;
                   aql_database_local = (if list_ex (\<lambda>i. contains i ''flow'') (index ls)
                                         then ''flows'' else ''events'');
                   qradarPrefix = ''SELECT UTF8(payload) as search_payload from ''
                                  @ aql_database_local @ '' where ''
               in if parsedAgg p \<noteq> None
                  then (case generateAggregation self1 (parsedAgg p) of
                          Inl e \<Rightarrow> Inl e
                        | Inr (EmptyString, self2) \<Rightarrow> Inl UnpackError
                        | Inr (PrefixSuffix qradarPrefix' qradarSuffixAgg', self2) \<Rightarrow>
                            Inr (qradarPrefix' @ result @ qradarSuffixAgg', self2))
                  else Inr (qradarPrefix @ result, self1)))"

text \<open>
  \<^verbatim>\<open>generate\<close>: the loop over \<^verbatim>\<open>sigmaparser.condparsed\<close> returns inside its first
  pass; with no parsed condition the method returns \<^verbatim>\<open>None\<close>. \<^verbatim>\<open>generateBefore\<close> and
  \<^verbatim>\<open>generateAfter\<close> are methods of the base class (not among the sources) and are
  parameters here: each returns a string or \<^verbatim>\<open>None\<close>. \<^verbatim>\<open>generateQuery\<close> returns a
  string whenever it returns, so the test \<^verbatim>\<open>query is not None\<close> always holds.
\<close>

fun generate_loop ::
  "(parsed \<Rightarrow> string option) \<Rightarrow> (parsed \<Rightarrow> string option) \<Rightarrow> QRadarBackend \<Rightarrow> sigmaparser
     \<Rightarrow> parsed list \<Rightarrow> error + (string option \<times> QRadarBackend)" where
  "generate_loop generateBefore generateAfter self sp [] = Inr (None, self)"
| "generate_loop generateBefore generateAfter self sp (p # rest) =
     (case generateQuery self p sp of
        Inl e \<Rightarrow> Inl e
      | Inr (query, self') \<Rightarrow>
          let before = generateBefore p;
              after = generateAfter p;
              result0 = (case before of None \<Rightarrow> [] | Some b \<Rightarrow> b);
              result1 = result0 @ query;
              result2 = (case after of None \<Rightarrow> result1 | Some a \<Rightarrow> result1 @ a)
          in Inr (Some result2, self'))"

definition generate ::
  "(parsed \<Rightarrow> string option) \<Rightarrow> (parsed \<Rightarrow> string option) \<Rightarrow> QRadarBackend \<Rightarrow> sigmaparser
     \<Rightarrow> error + (string option \<times> QRadarBackend)" where
  "generate generateBefore generateAfter self sp =
     generate_loop generateBefore generateAfter self sp (condparsed sp)"

section \<open>Example inputs\<close>

text \<open>Two log source definitions that differ in their category only.\<close>

definition ls_proc :: SigmaLogsourceConfiguration where
  "ls_proc = \<lparr>name = Some (YStr ''a''), indexfield = None, category = Some ''process_creation'',
      product = None, service = None, index = [], conditions = None\<rparr>"

definition ls_net :: SigmaLogsourceConfiguration where
  "ls_net = \<lparr>name = Some (YStr ''b''), indexfield = None, category = Some ''network_connection'',
      product = None, service = None, index = [], conditions = None\<rparr>"

text \<open>
  The rule of the specification's end-to-end example: \<^verbatim>\<open>EventID\<close> is 4624 and
  \<^verbatim>\<open>LogonType\<close> is one of "2" and "10"; its aggregation counts \<^verbatim>\<open>EventID\<close> by
  \<^verbatim>\<open>User\<close> and asks for more than 5. \<open>null_search\<close> is a second, shorter condition.
\<close>

definition rule_search :: node where
  "rule_search = ConditionAND [Tuple ''EventID'' (VScalar (PyInt 4624)),
                               Tuple ''LogonType'' (VList [PyStr ''2'', PyStr ''10''])]"

definition null_search :: node where
  "null_search = ConditionNULLValue ''DestinationIP''"

definition count_agg :: agg where
  "count_agg = \<lparr>aggfunc = AGGFUNC_COUNT, aggfunc_notrans = ''COUNT'', aggfield = ''EventID'',
                 groupfield = Some ''User'', cond_op = ''>'', condition = 5\<rparr>"

definition near_agg :: agg where
  "near_agg = \<lparr>aggfunc = AGGFUNC_NEAR, aggfunc_notrans = ''near'', aggfield = ''EventID'',
                groupfield = None, cond_op = ''>'', condition = 5\<rparr>"

text \<open>A backend object before its first translation.\<close>

definition new_backend :: QRadarBackend where
  "new_backend = \<lparr>qradarPrefixAgg = None, qradarSuffixAgg = None, parsedlogsource = None\<rparr>"

text \<open>
  Rule parsers whose log source resolves to the index \<^verbatim>\<open>auth-idx\<close> and to the index
  \<^verbatim>\<open>netflow-idx\<close>. The second parsed condition of \<open>two_conditions\<close> is of a node
  kind the backend refuses.
\<close>

definition auth_logsource :: SigmaLogsourceConfiguration where
  "auth_logsource = \<lparr>name = None, indexfield = None, category = Some ''authentication'',
       product = None, service = None, index = [''auth-idx''], conditions = None\<rparr>"

definition flow_logsource :: SigmaLogsourceConfiguration where
  "flow_logsource = \<lparr>name = None, indexfield = None, category = Some ''network'',
       product = None, service = None, index = [''netflow-idx''], conditions = None\<rparr>"

definition auth_parser :: sigmaparser where
  "auth_parser = \<lparr>condparsed = [\<lparr>parsedSearch = rule_search, parsedAgg = Some count_agg\<rparr>],
                   parser_logsource = Inr auth_logsource\<rparr>"

definition flow_parser :: sigmaparser where
  "flow_parser = \<lparr>condparsed = [\<lparr>parsedSearch = null_search, parsedAgg = Some count_agg\<rparr>],
                   parser_logsource = Inr flow_logsource\<rparr>"

definition two_conditions :: sigmaparser where
  "two_conditions = \<lparr>condparsed = [\<lparr>parsedSearch = null_search, parsedAgg = None\<rparr>,
                                     \<lparr>parsedSearch = OtherNode, parsedAgg = None\<rparr>],
                      parser_logsource = Inr auth_logsource\<rparr>"

text \<open>
  A configuration document with a default index and one log source, and a backend
  with an index field.
\<close>

definition example_document :: yaml where
  "example_document =
     YMap [(YStr ''defaultindex'', YStr ''main''),
           (YStr ''logsources'',
            YMap [(YStr ''windows'',
                   YMap [(YStr ''product'', YStr ''windows''), (YStr ''index'', YStr ''winlog'')])])]"

definition example_backend :: Backend where
  "example_backend = \<lparr>index_field = Some ''logsourceid''\<rparr>"

text \<open>
  A configuration document with three log sources, the second of which is not a map.
\<close>

definition refused_document :: yaml where
  "refused_document =
     YMap [(YStr ''logsources'',
            YMap [(YStr ''windows'', YMap [(YStr ''product'', YStr ''windows'')]),
                  (YStr ''broken'', YStr ''linux''),
                  (YStr ''linux'', YMap [(YStr ''product'', YStr ''linux'')])])]"

section \<open>Properties of rendered text\<close>

text \<open>
  \<open>has_unescaped q s\<close>: reading \<open>s\<close> from the left, with a backslash taking the
  character after it out of consideration, the character \<open>q\<close> occurs.
\<close>

fun has_unescaped :: "char \<Rightarrow> string \<Rightarrow> bool" where
  "has_unescaped q [] = False"
| "has_unescaped q [c] = (c = q)"
| "has_unescaped q (c # d # cs) =
     (if c = backslash then has_unescaped q cs else (c = q \<or> has_unescaped q (d # cs)))"

section \<open>Facts about the helper functions\<close>

lemma foldl_append_singletons:
  assumes step: "\<And>acc x. g acc x = acc @ [f x]"
  shows "foldl g acc xs = acc @ map f xs"
  by (induction xs arbitrary: acc) (simp_all add: step)

lemma itemslist_step_append:
  "itemslist_step key acc item =
     acc @ [if is_wildcard item
            then cleanKey key @ '' ilike '' @ valueExpression (cleanValue (replace CHR ''*'' CHR ''%'' (str item)))
            else cleanKey key @ '' = '' @ valueExpression (cleanValue (str item))]"
  by (cases item) (simp_all add: itemslist_step_def is_wildcard_def generateValueNode_def)

lemma str_int_10: "str_int 10 = ''10''"
  by code_simp

lemma str_int_5: "str_int 5 = ''5''"
  by code_simp

lemma str_int_4624: "str_int 4624 = ''4624''"
  by code_simp

section \<open>Rendering of a map item with a list value\<close>

text \<open>
  C6. For a map item whose value is a list of scalars, \<^verbatim>\<open>generateMapItemListNode\<close>
  returns an opening parenthesis, one clause per list element in the order of the
  list, joined with the OR token, and a closing parenthesis. The clause of an element
  that is a string containing \<^verbatim>\<open>*\<close> is \<^verbatim>\<open>key ilike 'value'\<close> with every \<^verbatim>\<open>*\<close> of the
  value replaced by \<^verbatim>\<open>%\<close>; the clause of any other element is \<^verbatim>\<open>key = 'value'\<close>.
\<close>

theorem generateMapItemListNode_clauses:
  "generateMapItemListNode key items =
     ''('' @ join orToken
               (map (\<lambda>item. if is_wildcard item
                       then cleanKey key @ '' ilike '' @ valueExpression (cleanValue (replace CHR ''*'' CHR ''%'' (str item)))
                       else cleanKey key @ '' = '' @ valueExpression (cleanValue (str item))) items)
         @ '')''"
proof -
  have "foldl (itemslist_step key) [] items =
          [] @ map (\<lambda>item. if is_wildcard item
                       then cleanKey key @ '' ilike '' @ valueExpression (cleanValue (replace CHR ''*'' CHR ''%'' (str item)))
                       else cleanKey key @ '' = '' @ valueExpression (cleanValue (str item))) items"
    by (rule foldl_append_singletons) (rule itemslist_step_append)
  then show ?thesis
    by (simp add: generateMapItemListNode_def orToken_def)
qed

text \<open>
  The list \<^verbatim>\<open>["2", "adm*", 10]\<close> under the key \<^verbatim>\<open>LogonType\<close>:
  \<^verbatim>\<open>(LogonType = '2' or LogonType ilike 'adm%' or LogonType = '10')\<close>.
\<close>

theorem generateMapItemListNode_clauses_witness:
  "generateMapItemListNode ''LogonType'' [PyStr ''2'', PyStr ''adm*'', PyInt 10] =
     ''(LogonType = '' @ [squote] @ ''2'' @ [squote] @ '' or LogonType ilike '' @ [squote]
       @ ''adm%'' @ [squote] @ '' or LogonType = '' @ [squote] @ ''10'' @ [squote] @ '')''"
  using generateMapItemListNode_clauses [of "''LogonType''" "[PyStr ''2'', PyStr ''adm*'', PyInt 10]"]
  by (simp add: is_wildcard_def cleanKey_def valueExpression_def cleanValue_def replace_def
        reEscape_def dquote_def orToken_def str_int_10)

section \<open>Matching a log source definition\<close>

text \<open>
  C5. A definition matches a (category, product, service) query, that is
  \<^verbatim>\<open>matches\<close> returns a true value, exactly when every attribute the definition
  specifies equals the corresponding attribute of the query and the definition
  specifies at least one attribute; an attribute the definition leaves out matches
  any query value.
\<close>

theorem matches_iff:
  "truthy (matches self c p s) \<longleftrightarrow>
     ((category self \<noteq> None \<longrightarrow> c = category self)
      \<and> (product self \<noteq> None \<longrightarrow> p = product self)
      \<and> (service self \<noteq> None \<longrightarrow> s = service self))
     \<and> (category self \<noteq> None \<or> product self \<noteq> None \<or> service self \<noteq> None)"
  unfolding matches_def truthy_def
  by (cases "category self"; cases "product self"; cases "service self"; simp; blast)

text \<open>
  A definition with category and product matches a query that agrees on both and
  names a service as well; the definition with no attribute does not match it.
\<close>

theorem matches_iff_witness:
  "truthy (matches \<lparr>name = None, indexfield = None, category = Some ''process_creation'',
                    product = Some ''windows'', service = None, index = [''winlog''],
                    conditions = None\<rparr>
             (Some ''process_creation'') (Some ''windows'') (Some ''sysmon''))
   \<and> \<not> truthy (matches (empty_logsource None None)
             (Some ''process_creation'') (Some ''windows'') (Some ''sysmon''))"
  using matches_iff [of "\<lparr>name = None, indexfield = None, category = Some ''process_creation'',
                    product = Some ''windows'', service = None, index = [''winlog''],
                    conditions = None\<rparr>" "Some ''process_creation''" "Some ''windows''" "Some ''sysmon''"]
    matches_iff [of "empty_logsource None None" "Some ''process_creation''" "Some ''windows''" "Some ''sysmon''"]
  by (simp add: empty_logsource_def)

section \<open>Merging log source definitions\<close>

lemma set_map_filter_Some: "set (List.map_filter f xs) = {c. \<exists>x\<in>set xs. f x = Some c}"
  by (induction xs) (auto simp add: List.map_filter_simps split: option.splits)

lemma merge_conflict_iff:
  "merge_logsources lss d n m i = Inl MergeConflict \<longleftrightarrow>
     1 < card {c. \<exists>ls\<in>set lss. category ls = Some c}
     \<or> 1 < card {c. \<exists>ls\<in>set lss. product ls = Some c}
     \<or> 1 < card {c. \<exists>ls\<in>set lss. service ls = Some c}"
  unfolding merge_logsources_def Let_def length_remdups_card_conv set_map_filter_Some
  by (simp split: sum.splits yaml.splits option.splits)

lemma merge_Inr_attrs:
  assumes "merge_logsources lss d n m i = Inr r"
  shows "category r = pop_or_None (remdups (List.map_filter category lss))"
    and "product r = pop_or_None (remdups (List.map_filter product lss))"
    and "service r = pop_or_None (remdups (List.map_filter service lss))"
  using assms unfolding merge_logsources_def Let_def
  by (auto split: sum.splits if_splits)

lemma pop_or_None_empty: "set xs = {} \<Longrightarrow> pop_or_None (remdups xs) = None"
  by (simp add: pop_or_None_def)

text \<open>
  C3. When the matching definitions carry more than one distinct category, more than
  one distinct product or more than one distinct service, merging them raises the
  conflict error, whatever the other arguments are. When the merge returns a
  definition, an attribute for which no matching definition gives a value is absent
  from it.
\<close>

theorem merge_conflict:
  "(1 < card {c. \<exists>ls\<in>set lss. category ls = Some c}
      \<or> 1 < card {c. \<exists>ls\<in>set lss. product ls = Some c}
      \<or> 1 < card {c. \<exists>ls\<in>set lss. service ls = Some c}
     \<longrightarrow> merge_logsources lss d n m i = Inl MergeConflict)
   \<and> (\<forall>r. merge_logsources lss d n m i = Inr r \<longrightarrow>
          ({c. \<exists>ls\<in>set lss. category ls = Some c} = {} \<longrightarrow> category r = None)
        \<and> ({c. \<exists>ls\<in>set lss. product ls = Some c} = {} \<longrightarrow> product r = None)
        \<and> ({c. \<exists>ls\<in>set lss. service ls = Some c} = {} \<longrightarrow> service r = None))"
proof (intro conjI impI allI)
  assume "1 < card {c. \<exists>ls\<in>set lss. category ls = Some c}
      \<or> 1 < card {c. \<exists>ls\<in>set lss. product ls = Some c}
      \<or> 1 < card {c. \<exists>ls\<in>set lss. service ls = Some c}"
  then show "merge_logsources lss d n m i = Inl MergeConflict"
    by (simp only: merge_conflict_iff)
next
  fix r
  assume r: "merge_logsources lss d n m i = Inr r"
    and e: "{c. \<exists>ls\<in>set lss. category ls = Some c} = {}"
  show "category r = None"
    using merge_Inr_attrs(1) [OF r] e
    by (simp add: pop_or_None_empty set_map_filter_Some)
next
  fix r
  assume r: "merge_logsources lss d n m i = Inr r"
    and e: "{c. \<exists>ls\<in>set lss. product ls = Some c} = {}"
  show "product r = None"
    using merge_Inr_attrs(2) [OF r] e
    by (simp add: pop_or_None_empty set_map_filter_Some)
next
  fix r
  assume r: "merge_logsources lss d n m i = Inr r"
    and e: "{c. \<exists>ls\<in>set lss. service ls = Some c} = {}"
  show "service r = None"
    using merge_Inr_attrs(3) [OF r] e
    by (simp add: pop_or_None_empty set_map_filter_Some)
qed

text \<open>
  Definitions with the categories \<^verbatim>\<open>process_creation\<close> and \<^verbatim>\<open>network_connection\<close>
  do not merge; one of them alone does.
\<close>

lemma cats: "{c. \<exists>ls\<in>set [ls_proc, ls_net]. category ls = Some c} = {''process_creation'', ''network_connection''}"
  by (auto simp add: ls_proc_def ls_net_def)

theorem merge_conflict_witness:
  "merge_logsources [ls_proc, ls_net] YNone None MM_AND None = Inl MergeConflict
   \<and> merge_logsources [ls_proc] YNone None MM_AND None
       = Inr \<lparr>name = None, indexfield = None, category = Some ''process_creation'',
              product = None, service = None, index = [], conditions = None\<rparr>"
proof -
  have c: "1 < card {c. \<exists>ls\<in>set [ls_proc, ls_net]. category ls = Some c}"
    by (subst cats) simp
  have m: "merge_logsources [ls_proc] YNone None MM_AND None
       = Inr \<lparr>name = None, indexfield = None, category = Some ''process_creation'',
              product = None, service = None, index = [], conditions = None\<rparr>"
    by (simp add: merge_logsources_def ls_proc_def List.map_filter_simps pop_or_None_def MM_AND_def)
  have w: "merge_logsources [ls_proc, ls_net] YNone None MM_AND None = Inl MergeConflict"
    by (rule mp [OF conjunct1 [OF merge_conflict]]) (rule disjI1, rule c)
  show ?thesis
    by (intro conjI w m)
qed










section \<open>Aggregation\<close>

text \<open>
  C8. An aggregation whose function is NEAR makes \<^verbatim>\<open>generateAggregation\<close> raise the
  unsupported-aggregation error, whatever its other fields and whatever the state of
  the backend, and a rule with such an aggregation never gets a query from
  \<^verbatim>\<open>generateQuery\<close>. Without an aggregation \<^verbatim>\<open>generateAggregation\<close> raises nothing and
  returns the empty string, no prefix and no suffix, and the query of a rule without
  aggregation is the plain SELECT prefix followed by the rendered predicate.
\<close>

theorem near_unsupported:
  "(aggfunc ag = AGGFUNC_NEAR \<longrightarrow> generateAggregation self (Some ag) = Inl UnsupportedAggregation)
   \<and> (aggfunc ag = AGGFUNC_NEAR \<and> parsedAgg p = Some ag \<longrightarrow> (\<forall>r. generateQuery self p sp \<noteq> Inr r))
   \<and> generateAggregation self None = Inr (EmptyString, self)
   \<and> (parsedAgg p = None \<and> generateNode (parsedSearch p) = Inr pred \<and> parser_logsource sp = Inr ls
        \<longrightarrow> (\<exists>src. generateQuery self p sp
               = Inr (''SELECT UTF8(payload) as search_payload from '' @ src @ '' where '' @ pred,
                      self\<lparr>parsedlogsource := Some (index ls)\<rparr>)))"
  by (auto simp add: generateAggregation_def generateQuery_def Let_def split: sum.splits)

text \<open>Two NEAR aggregations that differ in group field and threshold, and no aggregation.\<close>

theorem near_unsupported_witness:
  "generateAggregation new_backend (Some near_agg) = Inl UnsupportedAggregation
   \<and> generateAggregation new_backend (Some (near_agg\<lparr>groupfield := Some ''User'', condition := 0\<rparr>))
       = Inl UnsupportedAggregation
   \<and> generateAggregation new_backend None = Inr (EmptyString, new_backend)"
  using near_unsupported [of near_agg new_backend]
    near_unsupported [of "near_agg\<lparr>groupfield := Some ''User'', condition := 0\<rparr>" new_backend]
  by (simp add: near_agg_def)

section \<open>The entry point\<close>

text \<open>
  C10. For a rule with more than one parsed condition, \<^verbatim>\<open>generate\<close> returns what the
  first parsed condition gives: the error of its query, or the text before, its
  query and the text after. The other parsed conditions have no influence: with any
  other list in their place the result is the same.
\<close>

theorem generate_first_only:
  assumes "condparsed sp = p # rest" and "rest \<noteq> []"
  shows "generate gb ga self sp =
      (case generateQuery self p sp of
         Inl e \<Rightarrow> Inl e
       | Inr (query, self') \<Rightarrow>
           Inr (Some ((case gb p of None \<Rightarrow> [] | Some b \<Rightarrow> b) @ query
                      @ (case ga p of None \<Rightarrow> [] | Some a \<Rightarrow> a)), self'))
    \<and> generate gb ga self (sp\<lparr>condparsed := p # rest'\<rparr>) = generate gb ga self sp"
  using assms
  by (auto simp add: generate_def generateQuery_def Let_def split: sum.splits option.splits prod.splits)

text \<open>
  The second parsed condition of \<open>two_conditions\<close> would raise if it were rendered;
  \<^verbatim>\<open>generate\<close> returns the query of the first.
\<close>

lemma two_conditions_query:
  "generateQuery new_backend \<lparr>parsedSearch = null_search, parsedAgg = None\<rparr> two_conditions
     = Inr (''SELECT UTF8(payload) as search_payload from events where DestinationIP is null'',
            \<lparr>qradarPrefixAgg = None, qradarSuffixAgg = None, parsedlogsource = Some [''auth-idx'']\<rparr>)"
  by (simp add: generateQuery_def two_conditions_def null_search_def new_backend_def
      auth_logsource_def generateNULLValueNode_def nullExpression_def)

theorem generate_first_only_witness:
  "generate (\<lambda>p. Some []) (\<lambda>p. None) new_backend two_conditions
     = Inr (Some ''SELECT UTF8(payload) as search_payload from events where DestinationIP is null'',
            \<lparr>qradarPrefixAgg = None, qradarSuffixAgg = None, parsedlogsource = Some [''auth-idx'']\<rparr>)"
proof -
  have c: "condparsed two_conditions = \<lparr>parsedSearch = null_search, parsedAgg = None\<rparr>
             # [\<lparr>parsedSearch = OtherNode, parsedAgg = None\<rparr>]"
    by (simp add: two_conditions_def)
  have n: "[\<lparr>parsedSearch = OtherNode, parsedAgg = None\<rparr>] \<noteq> []"
    by simp
  show ?thesis
    using generate_first_only [OF c n, of "\<lambda>p. Some []" "\<lambda>p. None" new_backend]
    by (simp add: two_conditions_query)
qed

section \<open>The query of a rule with an aggregation\<close>

text \<open>The condition of the specification's end-to-end example, rendered.\<close>

lemma rule_search_rendered:
  "generateNode rule_search
     = Inr (''EventID='' @ [squote] @ ''4624'' @ [squote] @ '' and (LogonType = '' @ [squote] @ ''2''
            @ [squote] @ '' or LogonType = '' @ [squote] @ ''10'' @ [squote] @ '')'')"
  by (simp add: rule_search_def generateMapItemNode_def mapListsSpecialHandling_def is_scalar_def
      is_list_def mapExpression_def cleanKey_def generateValueNode_def valueExpression_def
      cleanValue_def reEscape_def dquote_def str_int_4624 generateMapItemListNode_def
      itemslist_step_def andToken_def)

text \<open>
  The query of a rule whose aggregation is not NEAR, on the two branches of
  \<^verbatim>\<open>generateAggregation\<close>: prefix, rendered predicate and suffix, one after the other.
  With a group field the prefix ends with a blank; without one it ends with
  \<^verbatim>\<open>where\<close>.
\<close>

lemma generateQuery_group_field:
  assumes "aggfunc ag \<noteq> AGGFUNC_NEAR" and "parsedAgg p = Some ag" and "groupfield ag = Some g"
    and "generateNode (parsedSearch p) = Inr pred" and "parser_logsource sp = Inr ls"
  shows "generateQuery self p sp
     = Inr ('' SELECT '' @ aggfunc_notrans ag @ ''('' @ aggfield ag @ '') as agg_val from events where ''
            @ pred
            @ '' group by '' @ g @ '' having agg_val '' @ cond_op ag @ '' '' @ str_int (condition ag),
            self\<lparr>parsedlogsource := Some (index ls),
                 qradarPrefixAgg := Some ('' SELECT '' @ aggfunc_notrans ag @ ''('' @ aggfield ag
                                          @ '') as agg_val from events where ''),
                 qradarSuffixAgg := Some ('' group by '' @ g @ '' having agg_val '' @ cond_op ag
                                          @ '' '' @ str_int (condition ag))\<rparr>)"
  using assms by (simp add: generateQuery_def generateAggregation_def aql_database_def Let_def)

lemma generateQuery_no_group_field:
  assumes "aggfunc ag \<noteq> AGGFUNC_NEAR" and "parsedAgg p = Some ag" and "groupfield ag = None"
    and "generateNode (parsedSearch p) = Inr pred" and "parser_logsource sp = Inr ls"
  shows "generateQuery self p sp
     = Inr (''SELECT '' @ aggfunc_notrans ag @ ''('' @ aggfield ag @ '') as agg_val from events where''
            @ pred
            @ '' group by '' @ aggfield ag @ '' having agg_val '' @ cond_op ag @ '' '' @ str_int (condition ag),
            self\<lparr>parsedlogsource := Some (index ls),
                 qradarPrefixAgg := Some (''SELECT '' @ aggfunc_notrans ag @ ''('' @ aggfield ag
                                          @ '') as agg_val from events where''),
                 qradarSuffixAgg := Some ('' group by '' @ aggfield ag @ '' having agg_val '' @ cond_op ag
                                          @ '' '' @ str_int (condition ag))\<rparr>)"
  using assms by (simp add: generateQuery_def generateAggregation_def aql_database_def Let_def)

text \<open>
  C1, evaluated on the aggregation COUNT of \<^verbatim>\<open>EventID\<close>, more than 5, without a group
  field, over the condition \<^verbatim>\<open>DestinationIP is null\<close>: the prefix has no blank after
  \<^verbatim>\<open>where\<close>, and the query runs \<^verbatim>\<open>where\<close> and the predicate together. The same rule
  grouped by \<^verbatim>\<open>User\<close> has the blank.
\<close>

theorem aggregation_without_group_field:
  "generateAggregation new_backend (Some (count_agg\<lparr>groupfield := None\<rparr>))
     = Inr (PrefixSuffix ''SELECT COUNT(EventID) as agg_val from events where''
              '' group by EventID having agg_val > 5'',
            \<lparr>qradarPrefixAgg = Some ''SELECT COUNT(EventID) as agg_val from events where'',
             qradarSuffixAgg = Some '' group by EventID having agg_val > 5'',
             parsedlogsource = None\<rparr>)
   \<and> generateQuery new_backend
        \<lparr>parsedSearch = null_search, parsedAgg = Some (count_agg\<lparr>groupfield := None\<rparr>)\<rparr> auth_parser
     = Inr (''SELECT COUNT(EventID) as agg_val from events whereDestinationIP is null group by EventID having agg_val > 5'',
            \<lparr>qradarPrefixAgg = Some ''SELECT COUNT(EventID) as agg_val from events where'',
             qradarSuffixAgg = Some '' group by EventID having agg_val > 5'',
             parsedlogsource = Some [''auth-idx'']\<rparr>)
   \<and> generateQuery new_backend \<lparr>parsedSearch = null_search, parsedAgg = Some count_agg\<rparr> auth_parser
     = Inr ('' SELECT COUNT(EventID) as agg_val from events where DestinationIP is null group by User having agg_val > 5'',
            \<lparr>qradarPrefixAgg = Some '' SELECT COUNT(EventID) as agg_val from events where '',
             qradarSuffixAgg = Some '' group by User having agg_val > 5'',
             parsedlogsource = Some [''auth-idx'']\<rparr>)"
  by (simp add: generateQuery_def generateAggregation_def auth_parser_def auth_logsource_def
      null_search_def count_agg_def new_backend_def aql_database_def str_int_5 Let_def
      generateNULLValueNode_def nullExpression_def)

section \<open>The data source name\<close>

text \<open>
  C2, evaluated on a rule whose resolved index is \<^verbatim>\<open>netflow-idx\<close>: with an aggregation
  the query reads from \<^verbatim>\<open>events\<close>, without one it reads from \<^verbatim>\<open>flows\<close>.
\<close>

theorem flow_aggregation_from_events:
  "generateQuery new_backend \<lparr>parsedSearch = null_search, parsedAgg = Some count_agg\<rparr> flow_parser
     = Inr ('' SELECT COUNT(EventID) as agg_val from events where DestinationIP is null group by User having agg_val > 5'',
            \<lparr>qradarPrefixAgg = Some '' SELECT COUNT(EventID) as agg_val from events where '',
             qradarSuffixAgg = Some '' group by User having agg_val > 5'',
             parsedlogsource = Some [''netflow-idx'']\<rparr>)
   \<and> generateQuery new_backend \<lparr>parsedSearch = null_search, parsedAgg = None\<rparr> flow_parser
     = Inr (''SELECT UTF8(payload) as search_payload from flows where DestinationIP is null'',
            \<lparr>qradarPrefixAgg = None, qradarSuffixAgg = None, parsedlogsource = Some [''netflow-idx'']\<rparr>)"
  by (simp add: generateQuery_def generateAggregation_def flow_parser_def flow_logsource_def
      null_search_def count_agg_def new_backend_def aql_database_def str_int_5 Let_def
      generateNULLValueNode_def nullExpression_def)

section \<open>Value literals\<close>

text \<open>
  C7, evaluated on the value \<^verbatim>\<open>a'b\<close>: the literal of the map item \<^verbatim>\<open>User\<close> is
  \<^verbatim>\<open>'a'b'\<close>; the value goes between the delimiters unchanged, and the delimiter
  occurs in it without a backslash before it.
\<close>

theorem single_quote_not_escaped:
  "generateNode (Tuple ''User'' (VScalar (PyStr (''a'' @ [squote] @ ''b''))))
     = Inr (''User='' @ [squote] @ ''a'' @ [squote] @ ''b'' @ [squote])
   \<and> generateValueNode (PyStr (''a'' @ [squote] @ ''b'')) True = valueExpression (''a'' @ [squote] @ ''b'')
   \<and> has_unescaped squote (''a'' @ [squote] @ ''b'')"
  by (simp add: generateMapItemNode_def mapListsSpecialHandling_def is_scalar_def
      mapExpression_def cleanKey_def generateValueNode_def valueExpression_def
      cleanValue_def reEscape_def dquote_def squote_def backslash_def)

section \<open>Attaching a backend\<close>

text \<open>
  The loop of \<^verbatim>\<open>set_backend\<close> in closed form: the definitions built from the entries
  before the first refused one are appended, and the error of that entry is raised.
\<close>

lemma set_backend_loop_char:
  "set_backend_loop self ls =
     (self\<lparr>logsources := logsources self
          @ map projr (takeWhile (\<lambda>r. \<not> isl r)
              (map (\<lambda>(nm, l). logsource_of_yaml l (defaultindex self) (Some nm) (logsourcemerging self)
                                 (get_indexfield self)) ls))\<rparr>,
      case dropWhile (\<lambda>r. \<not> isl r)
              (map (\<lambda>(nm, l). logsource_of_yaml l (defaultindex self) (Some nm) (logsourcemerging self)
                                 (get_indexfield self)) ls) of
        [] \<Rightarrow> None
      | r # _ \<Rightarrow> Some (projl r))"
proof (induction ls arbitrary: self)
  case Nil
  show ?case by simp
next
  case (Cons a ls)
  obtain nm l where a: "a = (nm, l)"
    by (cases a)
  show ?case
  proof (cases "logsource_of_yaml l (defaultindex self) (Some nm) (logsourcemerging self) (get_indexfield self)")
    case (Inl e)
    then show ?thesis
      by (simp add: a)
  next
    case (Inr d)
    then show ?thesis
      by (simp add: a Cons.IH get_indexfield_def)
  qed
qed

lemma logsource_of_yaml_map:
  assumes "logsource_of_yaml (YMap d) di (Some nm) mm ixf = Inr r"
  shows "name r = Some nm \<and> indexfield r = ixf"
  using assms
  by (auto simp add: logsource_of_yaml_def logsource_of_dict_def Let_def
      split: if_splits option.splits yaml.splits sum.splits)

lemma example_init:
  "SigmaConfiguration_init (Some example_document)
     = Inr \<lparr>config = Some [(YStr ''defaultindex'', YStr ''main''),
                (YStr ''logsources'',
                 YMap [(YStr ''windows'',
                        YMap [(YStr ''product'', YStr ''windows''), (YStr ''index'', YStr ''winlog'')])])],
            fieldmappings = [], logsources = [], logsourcemerging = YStr ''and'',
            defaultindex = YStr ''main'', backend = None\<rparr>"
  by (simp add: SigmaConfiguration_init_def example_document_def lookup_def MM_AND_def)

lemma refused_init:
  "SigmaConfiguration_init (Some refused_document)
     = Inr \<lparr>config = Some [(YStr ''logsources'',
                 YMap [(YStr ''windows'', YMap [(YStr ''product'', YStr ''windows'')]),
                       (YStr ''broken'', YStr ''linux''),
                       (YStr ''linux'', YMap [(YStr ''product'', YStr ''linux'')])])],
            fieldmappings = [], logsources = [], logsourcemerging = YStr ''and'',
            defaultindex = YNone, backend = None\<rparr>"
  by (simp add: SigmaConfiguration_init_def refused_document_def lookup_def MM_AND_def)

lemma example_set_backend:
  "set_backend \<lparr>config = Some [(YStr ''defaultindex'', YStr ''main''),
                (YStr ''logsources'',
                 YMap [(YStr ''windows'',
                        YMap [(YStr ''product'', YStr ''windows''), (YStr ''index'', YStr ''winlog'')])])],
            fieldmappings = [], logsources = [], logsourcemerging = YStr ''and'',
            defaultindex = YStr ''main'', backend = None\<rparr> example_backend
   = (\<lparr>config = Some [(YStr ''defaultindex'', YStr ''main''),
                (YStr ''logsources'',
                 YMap [(YStr ''windows'',
                        YMap [(YStr ''product'', YStr ''windows''), (YStr ''index'', YStr ''winlog'')])])],
            fieldmappings = [],
            logsources = [\<lparr>name = Some (YStr ''windows''), indexfield = Some ''logsourceid'',
                            category = None, product = Some ''windows'', service = None,
                            index = [''winlog''], conditions = None\<rparr>],
            logsourcemerging = YStr ''and'',
            defaultindex = YStr ''main'', backend = Some example_backend\<rparr>, None)"
  by (simp add: set_backend_def lookup_def logsource_of_yaml_def logsource_of_dict_def
      not_str_def str_or_None_def get_indexfield_def example_backend_def Let_def)

text \<open>
  C9, as the code has it. \<^verbatim>\<open>set_backend\<close>, whether it returns or raises, leaves the
  parsed document, the field mappings, the merge method and the default index of the
  configuration as they were and sets the backend. When the document has a
  \<^verbatim>\<open>logsources\<close> map, the call goes through its entries in order, builds a definition
  from each with the default index, the merge method and the backend's index field,
  and appends it to the log sources held before; it stops at the first entry that is
  refused and raises that entry's error, and raises nothing when no entry is refused.
  Without a document or without a \<^verbatim>\<open>logsources\<close> key the list is unchanged and nothing
  is raised; with a \<^verbatim>\<open>logsources\<close> value that is not a map the list is unchanged and
  the call raises. A definition built from an entry that is a map carries the
  entry's key as its name and the backend's index field.
\<close>

theorem set_backend_frame:
  assumes "set_backend self b = (self', err)"
  shows "config self' = config self \<and> fieldmappings self' = fieldmappings self
     \<and> logsourcemerging self' = logsourcemerging self \<and> defaultindex self' = defaultindex self
     \<and> backend self' = Some b
     \<and> (\<forall>m ls. config self = Some m \<and> lookup m ''logsources'' = Some (YMap ls) \<longrightarrow>
           logsources self' = logsources self
             @ map projr (takeWhile (\<lambda>r. \<not> isl r)
                 (map (\<lambda>(nm, l). logsource_of_yaml l (defaultindex self) (Some nm)
                                    (logsourcemerging self) (index_field b)) ls))
         \<and> err = (case dropWhile (\<lambda>r. \<not> isl r)
                          (map (\<lambda>(nm, l). logsource_of_yaml l (defaultindex self) (Some nm)
                                             (logsourcemerging self) (index_field b)) ls) of
                     [] \<Rightarrow> None
                   | r # _ \<Rightarrow> Some (projl r)))
     \<and> (config self = None \<or> (\<exists>m. config self = Some m \<and> lookup m ''logsources'' = None) \<longrightarrow>
           logsources self' = logsources self \<and> err = None)
     \<and> (\<forall>m v. config self = Some m \<and> lookup m ''logsources'' = Some v \<and> (\<forall>ls. v \<noteq> YMap ls) \<longrightarrow>
           logsources self' = logsources self
         \<and> err = Some (SigmaConfigParseError ''Logsources must be a map''))
     \<and> (\<forall>nm d r. logsource_of_yaml (YMap d) (defaultindex self) (Some nm) (logsourcemerging self)
                     (index_field b) = Inr r \<longrightarrow>
           name r = Some nm \<and> indexfield r = index_field b)"
proof -
  have content: "\<forall>nm d r. logsource_of_yaml (YMap d) (defaultindex self) (Some nm) (logsourcemerging self)
                     (index_field b) = Inr r \<longrightarrow>
           name r = Some nm \<and> indexfield r = index_field b"
    using logsource_of_yaml_map by blast
  show ?thesis
  proof (cases "config self")
    case None
    with assms content show ?thesis
      by (auto simp add: set_backend_def Let_def)
  next
    case (Some m)
    show ?thesis
    proof (cases "lookup m ''logsources''")
      case None
      with assms Some content show ?thesis
        by (auto simp add: set_backend_def Let_def)
    next
      case v: (Some v)
      show ?thesis
      proof (cases "\<exists>ls. v = YMap ls")
        case True
        then obtain ls where ls: "v = YMap ls" by blast
        from assms Some v ls
        have "set_backend_loop (self\<lparr>backend := Some b\<rparr>) ls = (self', err)"
          by (simp add: set_backend_def Let_def)
        then have "self' = self\<lparr>backend := Some b,
              logsources := logsources self
                @ map projr (takeWhile (\<lambda>r. \<not> isl r)
                    (map (\<lambda>(nm, l). logsource_of_yaml l (defaultindex self) (Some nm)
                                       (logsourcemerging self) (index_field b)) ls))\<rparr>"
          and "err = (case dropWhile (\<lambda>r. \<not> isl r)
                          (map (\<lambda>(nm, l). logsource_of_yaml l (defaultindex self) (Some nm)
                                             (logsourcemerging self) (index_field b)) ls) of
                     [] \<Rightarrow> None
                   | r # _ \<Rightarrow> Some (projl r))"
          by (simp_all add: set_backend_loop_char get_indexfield_def)
        with Some v ls content show ?thesis
          by simp
      next
        case False
        with assms Some v have "self' = self\<lparr>backend := Some b\<rparr>"
          and "err = Some (SigmaConfigParseError ''Logsources must be a map'')"
          by (cases v; simp add: set_backend_def Let_def)+
        with Some v False content show ?thesis
          by simp
      qed
    qed
  qed
qed

text \<open>
  The example document: one definition is appended, with the backend's index field,
  and nothing is raised. The document whose second log source is not a map: the
  definition of the first is appended, the call raises, and the third is not read.
\<close>

theorem set_backend_frame_witness:
  "(\<exists>cfg. SigmaConfiguration_init (Some example_document) = Inr cfg
      \<and> logsources (fst (set_backend cfg example_backend))
          = [\<lparr>name = Some (YStr ''windows''), indexfield = Some ''logsourceid'', category = None,
               product = Some ''windows'', service = None, index = [''winlog''], conditions = None\<rparr>]
      \<and> snd (set_backend cfg example_backend) = None
      \<and> defaultindex (fst (set_backend cfg example_backend)) = YStr ''main''
      \<and> logsourcemerging (fst (set_backend cfg example_backend)) = YStr ''and''
      \<and> fieldmappings (fst (set_backend cfg example_backend)) = []
      \<and> config (fst (set_backend cfg example_backend)) = config cfg
      \<and> backend (fst (set_backend cfg example_backend)) = Some example_backend)
   \<and> (\<exists>cfg. SigmaConfiguration_init (Some refused_document) = Inr cfg
      \<and> logsources (fst (set_backend cfg example_backend))
          = [\<lparr>name = Some (YStr ''windows''), indexfield = Some ''logsourceid'', category = None,
               product = Some ''windows'', service = None, index = [], conditions = None\<rparr>]
      \<and> snd (set_backend cfg example_backend)
          = Some (SigmaConfigParseError ''Logsource definitions must be maps''))"
  using set_backend_frame [OF prod.collapse [symmetric],
      of "\<lparr>config = Some [(YStr ''defaultindex'', YStr ''main''),
                (YStr ''logsources'',
                 YMap [(YStr ''windows'',
                        YMap [(YStr ''product'', YStr ''windows''), (YStr ''index'', YStr ''winlog'')])])],
            fieldmappings = [], logsources = [], logsourcemerging = YStr ''and'',
            defaultindex = YStr ''main'', backend = None\<rparr>" example_backend]
    set_backend_frame [OF prod.collapse [symmetric],
      of "\<lparr>config = Some [(YStr ''logsources'',
                 YMap [(YStr ''windows'', YMap [(YStr ''product'', YStr ''windows'')]),
                       (YStr ''broken'', YStr ''linux''),
                       (YStr ''linux'', YMap [(YStr ''product'', YStr ''linux'')])])],
            fieldmappings = [], logsources = [], logsourcemerging = YStr ''and'',
            defaultindex = YNone, backend = None\<rparr>" example_backend]
  by (simp add: example_init refused_init lookup_def logsource_of_yaml_def logsource_of_dict_def
      not_str_def str_or_None_def example_backend_def)

text \<open>
  C9, as the specification words it, fails: the list of log sources of the
  configuration built from the example document is empty before \<^verbatim>\<open>set_backend\<close> and
  holds one definition after it.
\<close>

theorem set_backend_changes_logsources:
  "\<exists>cfg. SigmaConfiguration_init (Some example_document) = Inr cfg
     \<and> logsources (fst (set_backend cfg example_backend)) \<noteq> logsources cfg"
  by (simp add: example_init example_set_backend)

end
